theory Spec2Isabelle
  imports Main
begin

section \<open>JavaScript strings\<close>

text \<open>
  A JavaScript string is modelled as a \<^typ>\<open>string\<close>: one \<^typ>\<open>char\<close> per code unit,
  for code units below 256. The operations used by \<^verbatim>\<open>manager/server.js\<close> are
  \<^verbatim>\<open>split\<close> and \<^verbatim>\<open>join\<close> on a one-character separator, \<^verbatim>\<open>trim\<close>,
  \<^verbatim>\<open>startsWith\<close>, \<^verbatim>\<open>includes\<close> and the rendering of a number inside a template
  literal.
\<close>

fun split :: "char \<Rightarrow> string \<Rightarrow> string list" where
  "split sep [] = [[]]"
| "split sep (c # cs) =
     (if c = sep then [] # split sep cs
      else (case split sep cs of
              [] \<Rightarrow> [[c]]
            | w # ws \<Rightarrow> (c # w) # ws))"

fun join :: "string \<Rightarrow> string list \<Rightarrow> string" where
  "join sep [] = []"
| "join sep [w] = w"
| "join sep (w # v # ws) = w @ sep @ join sep (v # ws)"

text \<open>
  The characters \<^verbatim>\<open>String.prototype.trim\<close> removes, among the code units below 256:
  tab, line feed, vertical tab, form feed, carriage return, space and no-break space.
\<close>

definition whitespace :: "char list" where
  "whitespace = [CHR 0x09, CHR 0x0A, CHR 0x0B, CHR 0x0C, CHR 0x0D, CHR '' '', CHR 0xA0]"

definition trim :: "string \<Rightarrow> string" where
  "trim s =
     rev (dropWhile (\<lambda>c. c \<in> set whitespace) (rev (dropWhile (\<lambda>c. c \<in> set whitespace) s)))"

definition startsWith :: "string \<Rightarrow> string \<Rightarrow> bool" where
  "startsWith s p = (take (length p) s = p)"

fun includes_str :: "string \<Rightarrow> string \<Rightarrow> bool" where
  "includes_str [] p = (p = [])"
| "includes_str (c # cs) p = (startsWith (c # cs) p \<or> includes_str cs p)"

fun show_nat :: "nat \<Rightarrow> string" where
  "show_nat n =
     (if n < 10 then [''0123456789'' ! n]
      else show_nat (n div 10) @ [''0123456789'' ! (n mod 10)])"

definition show_int :: "int \<Rightarrow> string" where
  "show_int i = (if i < 0 then ''-'' @ show_nat (nat (- i)) else show_nat (nat i))"

section \<open>The configuration reader\<close>

text \<open>
  \<^verbatim>\<open>getServerProperties\<close> (server.js, lines 25 to 40) builds an object literal
  \<^verbatim>\<open>{}\<close> by assignments \<^verbatim>\<open>props[k] = v\<close>. The object is a finite map from
  strings to strings. Assigning a string to the key \<^verbatim>\<open>__proto__\<close> of an ordinary
  object goes to the inherited setter, which ignores a value that is no object, so no
  entry is made.
\<close>

type_synonym props = "string \<rightharpoonup> string"

definition assign :: "props \<Rightarrow> string \<Rightarrow> string \<Rightarrow> props" where
  "assign props k v = (if k = ''__proto__'' then props else props(k \<mapsto> v))"

text \<open>The body of the \<^verbatim>\<open>forEach\<close> callback, lines 31 to 34.\<close>

definition parse_line :: "props \<Rightarrow> string \<Rightarrow> props" where
  "parse_line props line =
     (if line \<noteq> [] \<and> \<not> startsWith line ''#'' then
        (case split CHR ''='' line of
           [] \<Rightarrow> props
         | key # valueParts \<Rightarrow>
             if key \<noteq> [] then assign props (trim key) (trim (join ''='' valueParts))
             else props)
      else props)"

text \<open>
  \<^verbatim>\<open>fs.readFileSync\<close> either returns the content of the file or throws; the result
  of the call is the argument of the model. The \<^verbatim>\<open>try\<close> block is
  \<open>try_getServerProperties\<close>, whose \<open>Inl\<close> is the exception that reaches the
  \<^verbatim>\<open>catch\<close>; \<open>getServerProperties\<close> is the whole function.
\<close>

datatype fs_error = ENOENT | EACCES | EISDIR | EIO

definition try_getServerProperties :: "fs_error + string \<Rightarrow> fs_error + props" where
  "try_getServerProperties readFileSync =
     (case readFileSync of
        Inl err \<Rightarrow> Inl err
      | Inr content \<Rightarrow> Inr (foldl parse_line Map.empty (split CHR 0x0A content)))"

definition getServerProperties :: "fs_error + string \<Rightarrow> props" where
  "getServerProperties readFileSync =
     (case try_getServerProperties readFileSync of
        Inl err \<Rightarrow> Map.empty
      | Inr props \<Rightarrow> props)"

section \<open>The supervisor\<close>

subsection \<open>Data\<close>

text \<open>
  The module variables of server.js (lines 19 to 22) are \<^verbatim>\<open>minecraftProcess\<close>,
  \<^verbatim>\<open>serverStatus\<close>, \<^verbatim>\<open>consoleHistory\<close> and the constant \<^verbatim>\<open>MAX_HISTORY\<close>.
  \<^verbatim>\<open>minecraftProcess\<close> is \<^verbatim>\<open>null\<close> or a reference to a \<^verbatim>\<open>ChildProcess\<close>
  object. The objects live in a store, \<open>heap\<close>, and a reference is an index into it:
  the code writes to an object's standard input and registers listeners on it, while
  the variable that refers to it stays the same.
\<close>

datatype status = Stopped | Starting | Running | Stopping | Restarting

type_synonym sid = nat

type_synonym addr = nat

text \<open>
  The listeners of an object's \<^verbatim>\<open>close\<close> event: the one registered by the
  \<^verbatim>\<open>start\<close> handler (lines 100 to 105) and the ones the \<^verbatim>\<open>restart\<close> handler adds
  (lines 149 to 153), each closed over the socket of the client that asked.
\<close>

datatype close_listener = CloseHandler | RestartClose sid

record child_process =
  spawnfile :: string
  spawnargs :: "string list"
  stdin :: "string list"
  close_listeners :: "close_listener list"

record supervisor =
  minecraftProcess :: "addr option"
  serverStatus :: status
  consoleHistory :: "string list"
  heap :: "child_process list"

definition MAX_HISTORY :: nat where
  "MAX_HISTORY = 500"

definition SERVER_JAR :: string where
  "SERVER_JAR = ''server.jar''"

definition init :: supervisor where
  "init = \<lparr>minecraftProcess = None, serverStatus = Stopped, consoleHistory = [], heap = []\<rparr>"

text \<open>
  What a handler does to the outside: \<^verbatim>\<open>socket.emit\<close> sends an event to the one
  client behind the socket, \<^verbatim>\<open>io.emit\<close> to every connected client, and
  \<^verbatim>\<open>setTimeout\<close> schedules the callback of lines 150 to 152 for a socket. An
  event is its name with its payload; \<open>StartEvent\<close> is the event named
  \<^verbatim>\<open>start\<close>, which has none.
\<close>

datatype msg =
    Status status
  | Console string
  | History "string list"
  | Properties props
  | StartEvent

datatype target = Socket sid | Io

datatype effect = Emit target msg | SetTimeout nat sid

text \<open>
  The exit code of a \<^verbatim>\<open>close\<close> event is a number, or \<^verbatim>\<open>null\<close> when a signal
  ended the process; \<open>show_code\<close> is its rendering in a template literal.
\<close>

type_synonym exit_code = "int option"

definition show_code :: "exit_code \<Rightarrow> string" where
  "show_code code = (case code of None \<Rightarrow> ''null'' | Some i \<Rightarrow> show_int i)"

text \<open>
  \<^verbatim>\<open>forEach\<close> over a list, for a callback that changes the state and has effects:
  the state is threaded through and the effects are collected in order.
\<close>

fun forEach :: "('a \<Rightarrow> 's \<Rightarrow> 's \<times> 'e list) \<Rightarrow> 'a list \<Rightarrow> 's \<Rightarrow> 's \<times> 'e list" where
  "forEach f [] s = (s, [])"
| "forEach f (x # xs) s =
     (case f x s of (s', es) \<Rightarrow>
        (case forEach f xs s' of (s'', es') \<Rightarrow> (s'', es @ es')))"

subsection \<open>Process output\<close>

text \<open>
  Lines 79 and 80 (and 94 and 95): \<^verbatim>\<open>push\<close> the line, then \<^verbatim>\<open>shift\<close> when the
  array has grown beyond \<^verbatim>\<open>MAX_HISTORY\<close>.
\<close>

definition push_shift :: "string list \<Rightarrow> string \<Rightarrow> string list" where
  "push_shift history line =
     (let pushed = history @ [line]
      in if length pushed > MAX_HISTORY then tl pushed else pushed)"

text \<open>Lines 77 and 92: the chunk split at line feeds, blank lines dropped.\<close>

definition data_lines :: "string \<Rightarrow> string list" where
  "data_lines data = filter (\<lambda>l. trim l \<noteq> []) (split CHR 0x0A data)"

definition stdout_line :: "string \<Rightarrow> supervisor \<Rightarrow> supervisor \<times> effect list" where
  "stdout_line line s =
     (let s1 = s\<lparr>consoleHistory := push_shift (consoleHistory s) line\<rparr>
      in if includes_str line ''Done'' \<and> includes_str line ''For help''
         then (s1\<lparr>serverStatus := Running\<rparr>, [Emit Io (Console line), Emit Io (Status Running)])
         else (s1, [Emit Io (Console line)]))"

definition stdout_on_data :: "string \<Rightarrow> supervisor \<Rightarrow> supervisor \<times> effect list" where
  "stdout_on_data data s = forEach stdout_line (data_lines data) s"

definition stderr_line :: "string \<Rightarrow> supervisor \<Rightarrow> supervisor \<times> effect list" where
  "stderr_line line s =
     (s\<lparr>consoleHistory := push_shift (consoleHistory s) (''[ERROR] '' @ line)\<rparr>,
      [Emit Io (Console (''[ERROR] '' @ line))])"

definition stderr_on_data :: "string \<Rightarrow> supervisor \<Rightarrow> supervisor \<times> effect list" where
  "stderr_on_data data s = forEach stderr_line (data_lines data) s"

subsection \<open>Process exit and launch failure\<close>

text \<open>The \<^verbatim>\<open>close\<close> listener of lines 100 to 105.\<close>

definition on_close :: "exit_code \<Rightarrow> supervisor \<Rightarrow> supervisor \<times> effect list" where
  "on_close code s =
     (s\<lparr>serverStatus := Stopped, minecraftProcess := None\<rparr>,
      [Emit Io (Console (''[Manager] Server stopped with code '' @ show_code code)),
       Emit Io (Status Stopped)])"

text \<open>The \<^verbatim>\<open>error\<close> listener of lines 107 to 112; its argument is \<^verbatim>\<open>err.message\<close>.\<close>

definition on_error :: "string \<Rightarrow> supervisor \<Rightarrow> supervisor \<times> effect list" where
  "on_error message s =
     (s\<lparr>serverStatus := Stopped, minecraftProcess := None\<rparr>,
      [Emit Io (Console (''[Manager] Error: '' @ message)),
       Emit Io (Status Stopped)])"

text \<open>The \<^verbatim>\<open>close\<close> listener that \<^verbatim>\<open>restart\<close> registers, lines 149 to 153.\<close>

definition restart_on_close :: "sid \<Rightarrow> supervisor \<Rightarrow> supervisor \<times> effect list" where
  "restart_on_close sid s = (s, [SetTimeout 2000 sid])"

text \<open>The callback of the timer, line 151: \<^verbatim>\<open>socket.emit('start')\<close>.\<close>

definition timeout_callback :: "sid \<Rightarrow> supervisor \<Rightarrow> supervisor \<times> effect list" where
  "timeout_callback sid s = (s, [Emit (Socket sid) StartEvent])"

text \<open>
  A \<^verbatim>\<open>close\<close> event of the object at \<open>a\<close>: its listeners run in the order of
  their registration.
\<close>

definition run_close_listener ::
  "exit_code \<Rightarrow> close_listener \<Rightarrow> supervisor \<Rightarrow> supervisor \<times> effect list" where
  "run_close_listener code l s =
     (case l of
        CloseHandler \<Rightarrow> on_close code s
      | RestartClose sid \<Rightarrow> restart_on_close sid s)"

definition emit_close :: "addr \<Rightarrow> exit_code \<Rightarrow> supervisor \<Rightarrow> supervisor \<times> effect list" where
  "emit_close a code s =
     (if a < length (heap s)
      then forEach (run_close_listener code) (close_listeners (heap s ! a)) s
      else (s, []))"

subsection \<open>Client requests\<close>

text \<open>
  The object \<^verbatim>\<open>spawn\<close> returns (lines 62 to 74), with the listeners of lines 76
  to 112 registered. The working directory and the \<^verbatim>\<open>stdio\<close> option are left
  out: no handler reads them.
\<close>

definition spawn :: child_process where
  "spawn =
     \<lparr>spawnfile = ''java'',
      spawnargs = [''-Xms1G'', ''-Xmx2G'', ''-XX:+UseG1GC'', ''-XX:+ParallelRefProcEnabled'',
                   ''-XX:MaxGCPauseMillis=200'', ''-jar'', SERVER_JAR, ''nogui''],
      stdin = [],
      close_listeners = [CloseHandler]\<rparr>"

text \<open>\<^verbatim>\<open>stdin.write\<close> and \<^verbatim>\<open>on('close', ...)\<close> on the object at an address.\<close>

definition stdin_write :: "addr \<Rightarrow> string \<Rightarrow> child_process list \<Rightarrow> child_process list" where
  "stdin_write a chunk h =
     (if a < length h then h[a := (h ! a)\<lparr>stdin := stdin (h ! a) @ [chunk]\<rparr>] else h)"

definition add_close_listener ::
  "addr \<Rightarrow> close_listener \<Rightarrow> child_process list \<Rightarrow> child_process list" where
  "add_close_listener a l h =
     (if a < length h
      then h[a := (h ! a)\<lparr>close_listeners := close_listeners (h ! a) @ [l]\<rparr>]
      else h)"

text \<open>The connection handler, lines 43 to 49.\<close>

definition on_connection ::
  "sid \<Rightarrow> fs_error + string \<Rightarrow> supervisor \<Rightarrow> supervisor \<times> effect list" where
  "on_connection sid readFileSync s =
     (s, [Emit (Socket sid) (Status (serverStatus s)),
          Emit (Socket sid) (History (consoleHistory s)),
          Emit (Socket sid) (Properties (getServerProperties readFileSync))])"

text \<open>The \<^verbatim>\<open>start\<close> handler, lines 52 to 113.\<close>

definition on_start :: "sid \<Rightarrow> supervisor \<Rightarrow> supervisor \<times> effect list" where
  "on_start sid s =
     (case minecraftProcess s of
        Some a \<Rightarrow> (s, [Emit (Socket sid) (Console ''[Manager] Server is already running!'')])
      | None \<Rightarrow>
          (s\<lparr>serverStatus := Starting,
             minecraftProcess := Some (length (heap s)),
             heap := heap s @ [spawn]\<rparr>,
           [Emit Io (Status Starting),
            Emit Io (Console ''[Manager] Starting Minecraft server...'')]))"

text \<open>The \<^verbatim>\<open>stop\<close> handler, lines 116 to 127.\<close>

definition on_stop :: "sid \<Rightarrow> supervisor \<Rightarrow> supervisor \<times> effect list" where
  "on_stop sid s =
     (case minecraftProcess s of
        None \<Rightarrow> (s, [Emit (Socket sid) (Console ''[Manager] Server is not running!'')])
      | Some a \<Rightarrow>
          (s\<lparr>serverStatus := Stopping,
             heap := stdin_write a ''stop\<newline>'' (heap s)\<rparr>,
           [Emit Io (Status Stopping),
            Emit Io (Console ''[Manager] Stopping server...'')]))"

text \<open>The \<^verbatim>\<open>command\<close> handler, lines 130 to 138.\<close>

definition on_command :: "sid \<Rightarrow> string \<Rightarrow> supervisor \<Rightarrow> supervisor \<times> effect list" where
  "on_command sid cmd s =
     (case minecraftProcess s of
        None \<Rightarrow> (s, [Emit (Socket sid) (Console ''[Manager] Server is not running!'')])
      | Some a \<Rightarrow>
          (s\<lparr>heap := stdin_write a (cmd @ ''\<newline>'') (heap s)\<rparr>,
           [Emit Io (Console (''> '' @ cmd))]))"

text \<open>
  The \<^verbatim>\<open>restart\<close> handler, lines 141 to 157. On the server, \<^verbatim>\<open>socket.emit('start')\<close>
  sends an event named \<^verbatim>\<open>start\<close> to the client; it does not run the handler of
  line 52, which runs when the client sends that event.
\<close>

definition on_restart :: "sid \<Rightarrow> supervisor \<Rightarrow> supervisor \<times> effect list" where
  "on_restart sid s =
     (case minecraftProcess s of
        Some a \<Rightarrow>
          (s\<lparr>serverStatus := Restarting,
             heap := add_close_listener a (RestartClose sid)
                       (stdin_write a ''stop\<newline>'' (heap s))\<rparr>,
           [Emit Io (Status Restarting),
            Emit Io (Console ''[Manager] Restarting server...'')])
      | None \<Rightarrow> (s, [Emit (Socket sid) StartEvent]))"

text \<open>The \<^verbatim>\<open>disconnect\<close> handler, lines 159 to 161, only logs.\<close>

definition on_disconnect :: "sid \<Rightarrow> supervisor \<Rightarrow> supervisor \<times> effect list" where
  "on_disconnect sid s = (s, [])"

subsection \<open>The event loop\<close>

text \<open>
  Node runs one handler at a time, to its end. An event is a request of a client, a
  chunk of output from the child process, its exit, a launch failure, or a timer that
  fires.
\<close>

datatype event =
    Connection sid "fs_error + string"
  | Start sid
  | Stop sid
  | Command sid string
  | Restart sid
  | Disconnect sid
  | StdoutData string
  | StderrData string
  | Close addr exit_code
  | Error string
  | Timeout sid

fun step :: "event \<Rightarrow> supervisor \<Rightarrow> supervisor \<times> effect list" where
  "step (Connection sid readFileSync) s = on_connection sid readFileSync s"
| "step (Start sid) s = on_start sid s"
| "step (Stop sid) s = on_stop sid s"
| "step (Command sid cmd) s = on_command sid cmd s"
| "step (Restart sid) s = on_restart sid s"
| "step (Disconnect sid) s = on_disconnect sid s"
| "step (StdoutData data) s = stdout_on_data data s"
| "step (StderrData data) s = stderr_on_data data s"
| "step (Close a code) s = emit_close a code s"
| "step (Error message) s = on_error message s"
| "step (Timeout sid) s = timeout_callback sid s"

definition run :: "event list \<Rightarrow> supervisor \<Rightarrow> supervisor \<times> effect list" where
  "run evs s = forEach step evs s"

text \<open>The events that reach the client behind a socket, while it is connected, in order.\<close>

fun delivered :: "sid \<Rightarrow> effect list \<Rightarrow> msg list" where
  "delivered sid [] = []"
| "delivered sid (Emit (Socket sid') m # es) =
     (if sid' = sid then m # delivered sid es else delivered sid es)"
| "delivered sid (Emit Io m # es) = m # delivered sid es"
| "delivered sid (SetTimeout ms sid' # es) = delivered sid es"

text \<open>
  The lines that an event inserts into the console history, in order: the lines of a
  chunk of standard output, and those of a chunk of standard error with their prefix.
\<close>

fun inserted :: "event \<Rightarrow> string list" where
  "inserted (StdoutData data) = data_lines data"
| "inserted (StderrData data) = map (\<lambda>line. ''[ERROR] '' @ line) (data_lines data)"
| "inserted ev = []"

subsection \<open>The client\<close>

text \<open>
  public/app.js registers a listener for the events \<^verbatim>\<open>status\<close>, \<^verbatim>\<open>console\<close>,
  \<^verbatim>\<open>history\<close> and \<^verbatim>\<open>properties\<close> (lines 57 to 90). Each of them only updates
  the page; none sends an event to the server, and an event with no listener is
  dropped. \<open>client_on\<close> gives the events that the client sends to the server when it
  receives an event. The client sends \<^verbatim>\<open>start\<close> only when its start button is
  clicked (line 33).
\<close>

definition client_on :: "sid \<Rightarrow> msg \<Rightarrow> event list" where
  "client_on sid m =
     (case m of
        Status st \<Rightarrow> []
      | Console line \<Rightarrow> []
      | History ls \<Rightarrow> []
      | Properties ps \<Rightarrow> []
      | StartEvent \<Rightarrow> [])"

subsection \<open>Predicates on states\<close>

text \<open>
  Every object of the store carries the \<^verbatim>\<open>close\<close> listener of lines 100 to 105:
  \<^verbatim>\<open>start\<close>, the only place that creates an object, registers it.
\<close>

definition registered :: "supervisor \<Rightarrow> bool" where
  "registered s = list_all (\<lambda>p. CloseHandler \<in> set (close_listeners p)) (heap s)"

text \<open>No process: the status is \<^verbatim>\<open>stopped\<close> and the handle is \<^verbatim>\<open>null\<close>.\<close>

definition halted :: "supervisor \<Rightarrow> bool" where
  "halted s = (serverStatus s = Stopped \<and> minecraftProcess s = None)"

section \<open>Properties of the configuration reader\<close>

lemmas parser_defs = getServerProperties_def try_getServerProperties_def parse_line_def
  startsWith_def assign_def trim_def whitespace_def

text \<open>
  Claim C8. Parsing the line \<^verbatim>\<open>motd=Hello World\<close> maps the key \<^verbatim>\<open>motd\<close> to the
  value \<^verbatim>\<open>Hello World\<close>; the line \<^verbatim>\<open>#comment\<close> and the empty line add no entry,
  whatever the mapping was before; the line \<^verbatim>\<open>a=b=c\<close> maps the key \<^verbatim>\<open>a\<close> to
  the value \<^verbatim>\<open>b=c\<close>. The last conjunct reads a file with all four lines.
\<close>

theorem parse_examples:
  "getServerProperties (Inr ''motd=Hello World'') = [''motd'' \<mapsto> ''Hello World'']
   \<and> getServerProperties (Inr ''#comment'') = Map.empty
   \<and> getServerProperties (Inr '''') = Map.empty
   \<and> getServerProperties (Inr ''a=b=c'') = [''a'' \<mapsto> ''b=c'']
   \<and> parse_line props ''#comment'' = props
   \<and> parse_line props '''' = props
   \<and> parse_line props ''motd=Hello World'' = props(''motd'' \<mapsto> ''Hello World'')
   \<and> parse_line props ''a=b=c'' = props(''a'' \<mapsto> ''b=c'')
   \<and> getServerProperties (Inr ''#comment\<newline>\<newline>motd=Hello World\<newline>a=b=c'')
       = [''motd'' \<mapsto> ''Hello World'', ''a'' \<mapsto> ''b=c'']"
  by (simp add: parser_defs)

text \<open>
  Claim C9. When reading the configuration file fails, with whatever error, the
  exception raised inside the \<^verbatim>\<open>try\<close> block is caught: the configuration reader
  returns the empty mapping, a value, and raises nothing to its caller.
\<close>

theorem read_failure_empty:
  "try_getServerProperties (Inl err) = Inl err
   \<and> getServerProperties (Inl err) = Map.empty"
  by (simp add: getServerProperties_def try_getServerProperties_def)

subsection \<open>Splitting at the first separator\<close>

lemma split_not_Nil: "split sep s \<noteq> []"
  by (induction s) (auto split: list.splits)

lemma split_first:
  "sep \<notin> set key \<Longrightarrow> split sep (key @ sep # rest) = key # split sep rest"
  by (induction key) (auto split: list.splits)

lemma join_Cons_Cons: "join sep ((c # w) # ws) = c # join sep (w # ws)"
  by (cases ws) simp_all

lemma join_split: "join [sep] (split sep s) = s"
proof (induction s)
  case Nil
  then show ?case by simp
next
  case (Cons c cs)
  obtain w ws where ws: "split sep cs = w # ws"
    using split_not_Nil [of sep cs] by (cases "split sep cs") auto
  with Cons.IH have IH: "join [sep] (w # ws) = cs" by simp
  show ?case
  proof (cases "c = sep")
    case True
    then have "join [sep] (split sep (c # cs)) = [] @ [sep] @ join [sep] (w # ws)"
      by (simp add: ws)
    with IH True show ?thesis by simp
  next
    case False
    then have "join [sep] (split sep (c # cs)) = join [sep] ((c # w) # ws)"
      by (simp add: ws)
    with IH show ?thesis by (simp only: join_Cons_Cons)
  qed
qed

lemma hd_rev_last: "xs \<noteq> [] \<Longrightarrow> hd (rev xs) = last xs"
  by (induction xs) (auto simp: hd_append)

lemma dropWhile_hd: "xs = [] \<or> \<not> P (hd xs) \<Longrightarrow> dropWhile P xs = xs"
  by (cases xs) auto

lemma startsWith_append: "key \<noteq> [] \<Longrightarrow> startsWith (key @ rest) ''#'' = startsWith key ''#''"
  by (cases key) (simp_all add: startsWith_def)

lemma trim_clean:
  "s = [] \<or> (hd s \<notin> set whitespace \<and> last s \<notin> set whitespace) \<Longrightarrow> trim s = s"
proof (cases s)
  case Nil
  then show ?thesis by (simp add: trim_def)
next
  case (Cons c cs)
  assume "s = [] \<or> (hd s \<notin> set whitespace \<and> last s \<notin> set whitespace)"
  with Cons have h: "hd s \<notin> set whitespace" and l: "last s \<notin> set whitespace" by simp_all
  from h have "dropWhile (\<lambda>c. c \<in> set whitespace) s = s"
    by (simp add: dropWhile_hd)
  moreover from Cons have "s \<noteq> []" by simp
  then have "hd (rev s) = last s" by (rule hd_rev_last)
  with l have "hd (rev s) \<notin> set whitespace" by simp
  then have "dropWhile (\<lambda>c. c \<in> set whitespace) (rev s) = rev s"
    by (simp add: dropWhile_hd)
  ultimately show ?thesis by (simp add: trim_def)
qed

text \<open>
  Claim C7 says that the value is everything after the first separator, verbatim. The
  parts after the first separator are joined again with the separators between them,
  and the result is trimmed: for the line \<^verbatim>\<open>a= b=c\<close> the text after the first
  separator starts with a space, and the value stored does not.
\<close>

theorem value_not_verbatim:
  "parse_line Map.empty ''a= b=c'' ''a'' = Some ''b=c''
   \<and> join ''='' (tl (split CHR ''='' ''a= b=c'')) = '' b=c''
   \<and> parse_line Map.empty ''a= b=c'' ''a'' \<noteq> Some (join ''='' (tl (split CHR ''='' ''a= b=c'')))"
  by (simp add: parser_defs)

text \<open>
  Claim C7, amended. For a line that is neither empty nor a comment, whose key (the
  text before the first separator) is not empty and is not \<^verbatim>\<open>__proto__\<close> once
  trimmed, parsing splits at the first separator only: the value is all the text after
  the first separator, later separators included, with the white space at its two ends
  removed. When that text has no white space at its ends, the value is that text
  verbatim.
\<close>

theorem value_after_first_separator:
  assumes "CHR ''='' \<notin> set key" and "key \<noteq> []" and "\<not> startsWith key ''#''"
    and "trim key \<noteq> ''__proto__''"
  shows "parse_line props (key @ ''='' @ rest) = props(trim key \<mapsto> trim rest)
    \<and> (rest = [] \<or> (hd rest \<notin> set whitespace \<and> last rest \<notin> set whitespace) \<longrightarrow>
         parse_line props (key @ ''='' @ rest) = props(trim key \<mapsto> rest))"
proof -
  have "split CHR ''='' (key @ ''='' @ rest) = key # split CHR ''='' rest"
    using assms(1) by (simp add: split_first)
  moreover have "join ''='' (split CHR ''='' rest) = rest"
    by (rule join_split)
  ultimately have "parse_line props (key @ ''='' @ rest) = props(trim key \<mapsto> trim rest)"
    using assms(2-4) startsWith_append [of key "''='' @ rest"]
    by (simp add: parse_line_def assign_def)
  then show ?thesis by (auto simp: trim_clean)
qed

theorem value_after_first_separator_witness:
  "parse_line Map.empty (''motd'' @ ''='' @ '' a=b = c '') = [''motd'' \<mapsto> ''a=b = c'']
   \<and> parse_line Map.empty (''level-seed'' @ ''='' @ ''x==y='') = [''level-seed'' \<mapsto> ''x==y='']"
  using value_after_first_separator [of "''motd''" Map.empty "'' a=b = c ''"]
    value_after_first_separator [of "''level-seed''" Map.empty "''x==y=''"]
  by (simp add: startsWith_def trim_def whitespace_def)

section \<open>Properties of the supervisor\<close>

subsection \<open>Loops\<close>

lemma fst_forEach_Cons: "fst (forEach f (x # xs) s) = fst (forEach f xs (fst (f x s)))"
  by (simp split: prod.splits)

lemma snd_forEach_Cons:
  "snd (forEach f (x # xs) s) = snd (f x s) @ snd (forEach f xs (fst (f x s)))"
  by (simp split: prod.splits)

lemma forEach_invariant:
  assumes "\<And>x s. P s \<Longrightarrow> P (fst (f x s))" and "P s"
  shows "P (fst (forEach f xs s))"
  using assms(2)
proof (induction xs arbitrary: s)
  case Nil
  then show ?case by simp
next
  case (Cons x xs)
  from Cons.prems have "P (fst (f x s))" by (rule assms(1))
  then have "P (fst (forEach f xs (fst (f x s))))" by (rule Cons.IH)
  then show ?case by (simp only: fst_forEach_Cons)
qed

subsection \<open>Start while a process exists\<close>

text \<open>
  Claim C5. While a child-process handle exists, any sequence of \<^verbatim>\<open>start\<close>
  requests, from whatever clients, leaves the whole state as it was: no second process
  object is created, the handle, the status and the history are unchanged. Each
  request has one effect only, the notice sent to the client that asked.
\<close>

theorem start_while_running:
  assumes "minecraftProcess s = Some a"
  shows "run (map Start sids) s =
           (s, map (\<lambda>sid. Emit (Socket sid) (Console ''[Manager] Server is already running!'')) sids)"
  using assms by (induction sids) (simp_all add: run_def on_start_def)

theorem start_while_running_witness:
  "run (map Start [2, 3]) (fst (on_start 1 init)) =
     (fst (on_start 1 init),
      [Emit (Socket 2) (Console ''[Manager] Server is already running!''),
       Emit (Socket 3) (Console ''[Manager] Server is already running!'')])"
  using start_while_running [of "fst (on_start 1 init)" 0 "[2, 3]"]
  by (simp add: on_start_def init_def)

subsection \<open>The store of process objects\<close>

lemmas handler_defs = on_connection_def on_start_def on_stop_def on_command_def
  on_restart_def on_disconnect_def on_close_def on_error_def restart_on_close_def
  timeout_callback_def

lemma list_all_stdin_write:
  "list_all (\<lambda>p. CloseHandler \<in> set (close_listeners p)) h \<Longrightarrow>
   list_all (\<lambda>p. CloseHandler \<in> set (close_listeners p)) (stdin_write a chunk h)"
  by (auto simp: stdin_write_def list_all_length nth_list_update)

lemma list_all_add_close_listener:
  "list_all (\<lambda>p. CloseHandler \<in> set (close_listeners p)) h \<Longrightarrow>
   list_all (\<lambda>p. CloseHandler \<in> set (close_listeners p)) (add_close_listener a l h)"
  by (auto simp: add_close_listener_def list_all_length nth_list_update)

lemma heap_forEach:
  assumes "\<And>x s. heap (fst (f x s)) = heap s"
  shows "heap (fst (forEach f xs s)) = heap s"
  by (rule forEach_invariant [where P = "\<lambda>t. heap t = heap s"]) (simp_all add: assms)

lemma heap_stdout_line: "heap (fst (stdout_line line s)) = heap s"
  by (simp add: stdout_line_def Let_def)

lemma heap_stderr_line: "heap (fst (stderr_line line s)) = heap s"
  by (simp add: stderr_line_def)

lemma heap_run_close_listener: "heap (fst (run_close_listener code l s)) = heap s"
  by (simp add: run_close_listener_def on_close_def restart_on_close_def split: close_listener.splits)

lemma registered_step: "registered s \<Longrightarrow> registered (fst (step ev s))"
proof (cases ev)
  case (Start sid)
  then show "registered s \<Longrightarrow> ?thesis"
    by (simp add: registered_def on_start_def spawn_def split: option.splits)
next
  case (Stop sid)
  then show "registered s \<Longrightarrow> ?thesis"
    by (simp add: registered_def on_stop_def list_all_stdin_write split: option.splits)
next
  case (Command sid cmd)
  then show "registered s \<Longrightarrow> ?thesis"
    by (simp add: registered_def on_command_def list_all_stdin_write split: option.splits)
next
  case (Restart sid)
  then show "registered s \<Longrightarrow> ?thesis"
    by (simp add: registered_def on_restart_def list_all_stdin_write
        list_all_add_close_listener split: option.splits)
next
  case (StdoutData data)
  then show "registered s \<Longrightarrow> ?thesis"
    by (simp add: registered_def stdout_on_data_def heap_forEach heap_stdout_line)
next
  case (StderrData data)
  then show "registered s \<Longrightarrow> ?thesis"
    by (simp add: registered_def stderr_on_data_def heap_forEach heap_stderr_line)
next
  case (Close a code)
  then show "registered s \<Longrightarrow> ?thesis"
    by (simp add: registered_def emit_close_def heap_forEach heap_run_close_listener)
qed (simp_all add: registered_def handler_defs)

lemma registered_run: "registered s \<Longrightarrow> registered (fst (run evs s))"
  unfolding run_def by (rule forEach_invariant) (simp_all add: registered_step)

lemma registered_init: "registered init"
  by (simp add: registered_def init_def)

subsection \<open>Process exit\<close>

lemma halted_listeners:
  "halted s \<or> CloseHandler \<in> set ls \<Longrightarrow> halted (fst (forEach (run_close_listener code) ls s))"
proof (induction ls arbitrary: s)
  case Nil
  then show ?case by simp
next
  case (Cons l ls)
  have "halted (fst (run_close_listener code l s)) \<or> CloseHandler \<in> set ls"
    using Cons.prems
    by (cases l) (auto simp: run_close_listener_def on_close_def restart_on_close_def halted_def)
  then show ?case by (simp only: fst_forEach_Cons Cons.IH)
qed

text \<open>
  Claim C3. After the \<^verbatim>\<open>close\<close> listener has run, whatever the exit code (a
  number or \<^verbatim>\<open>null\<close>) and whatever the state before, the status is
  \<^verbatim>\<open>stopped\<close> and the handle is \<^verbatim>\<open>null\<close>; likewise after the
  \<^verbatim>\<open>error\<close> listener of a launch failure. The last conjunct is the same for the
  whole \<^verbatim>\<open>close\<close> event, with the listeners that \<^verbatim>\<open>restart\<close> added, of any
  process object of any state the system can reach.
\<close>

theorem exit_stops:
  "serverStatus (fst (on_close code s)) = Stopped
   \<and> minecraftProcess (fst (on_close code s)) = None
   \<and> serverStatus (fst (on_error message s)) = Stopped
   \<and> minecraftProcess (fst (on_error message s)) = None
   \<and> (a < length (heap (fst (run evs init))) \<longrightarrow>
        serverStatus (fst (emit_close a code (fst (run evs init)))) = Stopped
        \<and> minecraftProcess (fst (emit_close a code (fst (run evs init)))) = None)"
proof -
  have "halted (fst (emit_close a code (fst (run evs init))))"
    if "a < length (heap (fst (run evs init)))"
  proof -
    have "registered (fst (run evs init))"
      by (rule registered_run) (rule registered_init)
    with that have "CloseHandler \<in> set (close_listeners (heap (fst (run evs init)) ! a))"
      by (simp add: registered_def list_all_length)
    then show ?thesis
      using that by (simp add: emit_close_def halted_listeners)
  qed
  then show ?thesis
    by (simp add: on_close_def on_error_def halted_def)
qed

theorem exit_stops_witness:
  "serverStatus (fst (emit_close 0 (Some 1) (fst (run [Start 1, Restart 2] init)))) = Stopped
   \<and> minecraftProcess (fst (emit_close 0 (Some 1) (fst (run [Start 1, Restart 2] init)))) = None"
  using exit_stops [of "Some 1" init "''x''" 0 "[Start 1, Restart 2]"]
  by (simp add: run_def on_start_def on_restart_def init_def stdin_write_def
      add_close_listener_def)

subsection \<open>The console history\<close>

lemma consoleHistory_forEach:
  assumes "\<And>x s. consoleHistory (fst (f x s)) = consoleHistory s"
  shows "consoleHistory (fst (forEach f xs s)) = consoleHistory s"
  by (rule forEach_invariant [where P = "\<lambda>t. consoleHistory t = consoleHistory s"])
    (simp_all add: assms)

lemma consoleHistory_run_close_listener:
  "consoleHistory (fst (run_close_listener code l s)) = consoleHistory s"
  by (simp add: run_close_listener_def on_close_def restart_on_close_def
      split: close_listener.splits)

lemma consoleHistory_emit_close: "consoleHistory (fst (emit_close a code s)) = consoleHistory s"
  by (simp add: emit_close_def consoleHistory_forEach consoleHistory_run_close_listener)

lemma length_push_shift: "length h \<le> MAX_HISTORY \<Longrightarrow> length (push_shift h line) \<le> MAX_HISTORY"
  by (simp add: push_shift_def Let_def)

lemma foldl_push_shift:
  "length h \<le> MAX_HISTORY \<Longrightarrow>
   foldl push_shift h ls = drop (length (h @ ls) - MAX_HISTORY) (h @ ls)"
proof (induction ls arbitrary: h)
  case Nil
  then show ?case by simp
next
  case (Cons l ls)
  have len: "length (push_shift h l) \<le> MAX_HISTORY"
    using Cons.prems by (rule length_push_shift)
  have "foldl push_shift h (l # ls) = foldl push_shift (push_shift h l) ls"
    by simp
  also have "\<dots> = drop (length (push_shift h l @ ls) - MAX_HISTORY) (push_shift h l @ ls)"
    using len by (rule Cons.IH)
  also have "\<dots> = drop (length (h @ l # ls) - MAX_HISTORY) (h @ l # ls)"
  proof (cases "length h < MAX_HISTORY")
    case True
    then show ?thesis by (simp add: push_shift_def Let_def)
  next
    case False
    with Cons.prems have full: "length h = MAX_HISTORY" by simp
    then obtain x h' where h: "h = x # h'" by (cases h) (auto simp: MAX_HISTORY_def)
    from full h have ps: "push_shift h l = h' @ [l]"
      by (simp add: push_shift_def Let_def)
    from full h have e1: "length ((h' @ [l]) @ ls) - MAX_HISTORY = length ls"
      and e2: "length (h @ l # ls) - MAX_HISTORY = Suc (length ls)"
      by simp_all
    show ?thesis unfolding ps e1 e2 by (simp add: h)
  qed
  finally show ?case .
qed

lemma consoleHistory_stdout_lines:
  "consoleHistory (fst (forEach stdout_line ls s)) = foldl push_shift (consoleHistory s) ls"
proof (induction ls arbitrary: s)
  case Nil
  then show ?case by simp
next
  case (Cons l ls)
  have "consoleHistory (fst (stdout_line l s)) = push_shift (consoleHistory s) l"
    by (simp add: stdout_line_def Let_def)
  then show ?case by (simp only: fst_forEach_Cons Cons.IH foldl_Cons)
qed

lemma consoleHistory_stderr_lines:
  "consoleHistory (fst (forEach stderr_line ls s)) =
     foldl push_shift (consoleHistory s) (map (\<lambda>line. ''[ERROR] '' @ line) ls)"
proof (induction ls arbitrary: s)
  case Nil
  then show ?case by simp
next
  case (Cons l ls)
  have "consoleHistory (fst (stderr_line l s)) = push_shift (consoleHistory s) (''[ERROR] '' @ l)"
    by (simp add: stderr_line_def)
  then show ?case by (simp only: fst_forEach_Cons Cons.IH foldl_Cons list.map)
qed

lemma consoleHistory_step:
  "consoleHistory (fst (step ev s)) = foldl push_shift (consoleHistory s) (inserted ev)"
proof (cases ev)
  case (StderrData data)
  then show ?thesis
    by (simp only: step.simps inserted.simps stderr_on_data_def consoleHistory_stderr_lines)
qed (simp_all add: handler_defs stdout_on_data_def consoleHistory_stdout_lines
    consoleHistory_emit_close split: option.splits)

lemma consoleHistory_run:
  "consoleHistory (fst (run evs s)) =
     foldl push_shift (consoleHistory s) (concat (map inserted evs))"
  unfolding run_def
proof (induction evs arbitrary: s)
  case Nil
  then show ?case by simp
next
  case (Cons ev evs)
  show ?case
    by (simp only: fst_forEach_Cons Cons.IH consoleHistory_step list.map concat.simps
        foldl_append)
qed

text \<open>
  Claim C4. From the start of the manager and after any sequence of events, the console
  history has at most \<^verbatim>\<open>MAX_HISTORY\<close> = 500 entries, and it is the last 500 of the
  lines inserted from standard output and standard error, in their order of arrival.
  One insertion into a history within the bound gives a history within the bound. When
  501 lines have been inserted the history is all of them but the first, and has 500
  entries; the entry evicted is the oldest one.
\<close>

theorem history_bounded:
  "length (consoleHistory (fst (run evs init))) \<le> MAX_HISTORY
   \<and> consoleHistory (fst (run evs init)) =
       drop (length (concat (map inserted evs)) - MAX_HISTORY) (concat (map inserted evs))
   \<and> (length h \<le> MAX_HISTORY \<longrightarrow> length (push_shift h line) \<le> MAX_HISTORY)
   \<and> (length (concat (map inserted evs)) = MAX_HISTORY + 1 \<longrightarrow>
        consoleHistory (fst (run evs init)) = tl (concat (map inserted evs))
        \<and> length (consoleHistory (fst (run evs init))) = MAX_HISTORY)
   \<and> (length xs = MAX_HISTORY \<longrightarrow>
        foldl push_shift [] (x # xs) = xs
        \<and> (x \<notin> set xs \<longrightarrow> x \<notin> set (foldl push_shift [] (x # xs))))"
proof -
  have run: "consoleHistory (fst (run evs init)) =
      drop (length (concat (map inserted evs)) - MAX_HISTORY) (concat (map inserted evs))"
    using foldl_push_shift [of "[]" "concat (map inserted evs)"]
    by (simp add: consoleHistory_run init_def)
  have fill: "foldl push_shift [] (x # xs) = xs" if "length xs = MAX_HISTORY"
    using that foldl_push_shift [of "[]" "x # xs"] by simp
  have len: "length (consoleHistory (fst (run evs init))) \<le> MAX_HISTORY"
    by (simp add: run)
  have over: "consoleHistory (fst (run evs init)) = tl (concat (map inserted evs))
      \<and> length (consoleHistory (fst (run evs init))) = MAX_HISTORY"
    if "length (concat (map inserted evs)) = MAX_HISTORY + 1"
    using that by (simp add: run drop_Suc)
  show ?thesis
    using len run over fill length_push_shift [of h line] by simp
qed

theorem history_bounded_witness:
  "length (push_shift [''a''] ''b'') \<le> MAX_HISTORY
   \<and> consoleHistory (fst (run (replicate 501 (StdoutData ''x'')) init)) = replicate 500 ''x''
   \<and> foldl push_shift [] (''old'' # replicate 500 ''new'') = replicate 500 ''new''
   \<and> ''old'' \<notin> set (foldl push_shift [] (''old'' # replicate 500 ''new''))"
proof -
  have ins: "concat (replicate n (data_lines ''x'')) = replicate n ''x''" for n
    by (induction n) (simp_all add: data_lines_def trim_def whitespace_def)
  show ?thesis
    using history_bounded [of "replicate 501 (StdoutData ''x'')" "[''a'']" "''b''"
        "replicate 500 ''new''" "''old''"]
    by (simp add: ins MAX_HISTORY_def)
qed

text \<open>
  Claim C2 says that the exit notice is appended to the console history. It is not:
  after a start and an exit with code 0 the notice has been broadcast and the history
  is empty.
\<close>

theorem exit_notice_not_in_history:
  "consoleHistory (fst (run [Start 1, Close 0 (Some 0)] init)) = []
   \<and> snd (run [Start 1, Close 0 (Some 0)] init) =
       [Emit Io (Status Starting),
        Emit Io (Console ''[Manager] Starting Minecraft server...''),
        Emit Io (Console ''[Manager] Server stopped with code 0''),
        Emit Io (Status Stopped)]
   \<and> ''[Manager] Server stopped with code 0''
       \<notin> set (consoleHistory (fst (run [Start 1, Close 0 (Some 0)] init)))"
  by (simp add: run_def on_start_def emit_close_def run_close_listener_def on_close_def
      init_def spawn_def show_code_def show_int_def)

text \<open>
  Claim C2, amended. At every process exit the supervisor broadcasts to all clients a
  notice line that ends with the exit code, followed by the status \<^verbatim>\<open>stopped\<close>;
  the console history is left as it was, by the listener of lines 100 to 105 and by the
  whole \<^verbatim>\<open>close\<close> event.
\<close>

theorem exit_notice_broadcast:
  "on_close code s =
     (s\<lparr>serverStatus := Stopped, minecraftProcess := None\<rparr>,
      [Emit Io (Console (''[Manager] Server stopped with code '' @ show_code code)),
       Emit Io (Status Stopped)])
   \<and> consoleHistory (fst (on_close code s)) = consoleHistory s
   \<and> consoleHistory (fst (emit_close a code s)) = consoleHistory s
   \<and> show_code (Some 0) = ''0'' \<and> show_code (Some 1) = ''1''
   \<and> show_code (Some 143) = ''143'' \<and> show_code None = ''null''"
  by (simp add: on_close_def consoleHistory_emit_close show_code_def show_int_def)

subsection \<open>Stop and command\<close>

text \<open>
  Claim C10. While a handle exists, \<^verbatim>\<open>stop\<close> and \<^verbatim>\<open>command\<close> leave the console
  history and the handle unchanged. The stopping notice and the echo of the command
  are broadcast and not appended to the history: a client that connects afterwards is
  sent the history as it was before the request. Of the module variables
  \<^verbatim>\<open>stop\<close> changes the status only, and \<^verbatim>\<open>command\<close> none; both write to the
  standard input of the process object.
\<close>

theorem stop_command_frame:
  assumes "minecraftProcess s = Some a"
  shows "consoleHistory (fst (on_stop sid s)) = consoleHistory s
    \<and> minecraftProcess (fst (on_stop sid s)) = minecraftProcess s
    \<and> consoleHistory (fst (on_command sid cmd s)) = consoleHistory s
    \<and> minecraftProcess (fst (on_command sid cmd s)) = minecraftProcess s
    \<and> serverStatus (fst (on_command sid cmd s)) = serverStatus s
    \<and> snd (on_stop sid s) =
        [Emit Io (Status Stopping), Emit Io (Console ''[Manager] Stopping server...'')]
    \<and> snd (on_command sid cmd s) = [Emit Io (Console (''> '' @ cmd))]
    \<and> fst (on_stop sid s) =
        s\<lparr>serverStatus := Stopping, heap := stdin_write a ''stop\<newline>'' (heap s)\<rparr>
    \<and> fst (on_command sid cmd s) = s\<lparr>heap := stdin_write a (cmd @ ''\<newline>'') (heap s)\<rparr>
    \<and> delivered sid' (snd (on_connection sid' file (fst (on_stop sid s)))) =
        [Status Stopping, History (consoleHistory s), Properties (getServerProperties file)]
    \<and> delivered sid' (snd (on_connection sid' file (fst (on_command sid cmd s)))) =
        [Status (serverStatus s), History (consoleHistory s),
         Properties (getServerProperties file)]"
  using assms by (simp add: on_stop_def on_command_def on_connection_def)

theorem stop_command_frame_witness:
  "consoleHistory (fst (on_stop 2 (fst (run [Start 4, StdoutData ''Loading''] init)))) = [''Loading'']
   \<and> minecraftProcess (fst (on_stop 2 (fst (run [Start 4, StdoutData ''Loading''] init)))) = Some 0
   \<and> consoleHistory (fst (on_command 2 ''list'' (fst (run [Start 4, StdoutData ''Loading''] init))))
       = [''Loading'']
   \<and> delivered 3 (snd (on_connection 3 (Inl ENOENT)
        (fst (on_stop 2 (fst (run [Start 4, StdoutData ''Loading''] init))))))
       = [Status Stopping, History [''Loading''], Properties Map.empty]"
proof -
  have s: "fst (run [Start 4, StdoutData ''Loading''] init) =
      \<lparr>minecraftProcess = Some 0, serverStatus = Starting, consoleHistory = [''Loading''],
       heap = [spawn]\<rparr>"
    by (simp add: run_def on_start_def init_def stdout_on_data_def data_lines_def trim_def
        whitespace_def stdout_line_def push_shift_def MAX_HISTORY_def startsWith_def)
  show ?thesis
    using stop_command_frame [of "fst (run [Start 4, StdoutData ''Loading''] init)" 0 2
        "''list''" 3 "Inl ENOENT"]
    by (simp add: s getServerProperties_def try_getServerProperties_def on_connection_def)
qed

subsection \<open>A new connection\<close>

lemma delivered_append: "delivered sid (es @ es') = delivered sid es @ delivered sid es'"
  by (induction sid es rule: delivered.induct) simp_all

text \<open>
  Claim C6. The connection handler sends exactly three events, each to the new socket
  only: the current status, the whole console history in its order, and the
  configuration snapshot. The state is unchanged, and a client behind another socket
  receives nothing. Whatever events follow, the new client receives these three before
  anything that the later events produce.
\<close>

theorem connection_push:
  "on_connection sid file s =
     (s, [Emit (Socket sid) (Status (serverStatus s)),
          Emit (Socket sid) (History (consoleHistory s)),
          Emit (Socket sid) (Properties (getServerProperties file))])
   \<and> (sid' \<noteq> sid \<longrightarrow> delivered sid' (snd (on_connection sid file s)) = [])
   \<and> delivered sid (snd (run (Connection sid file # evs) s)) =
       [Status (serverStatus s), History (consoleHistory s),
        Properties (getServerProperties file)] @ delivered sid (snd (run evs s))
   \<and> fst (run (Connection sid file # evs) s) = fst (run evs s)"
  by (simp add: on_connection_def run_def fst_forEach_Cons snd_forEach_Cons delivered_append
      del: forEach.simps)

theorem connection_push_witness:
  "delivered 2 (snd (on_connection 1 (Inr ''motd=Hi'') init)) = []
   \<and> delivered 1 (snd (on_connection 1 (Inr ''motd=Hi'') init)) =
       [Status Stopped, History [], Properties [''motd'' \<mapsto> ''Hi'']]"
  using connection_push [of 1 "Inr ''motd=Hi''" init 2 "[]"]
  by (simp add: init_def parser_defs run_def)

subsection \<open>Restart\<close>

text \<open>
  Claim C1. With no handle, \<^verbatim>\<open>restart\<close> does not behave as \<^verbatim>\<open>start\<close>: it
  sends an event named \<^verbatim>\<open>start\<close> to the client that asked, which has no listener
  for it, and the state stays as it was, where \<^verbatim>\<open>start\<close> sets the status to
  \<^verbatim>\<open>starting\<close> and creates a process. With a handle, \<^verbatim>\<open>restart\<close> sets the
  status to \<^verbatim>\<open>restarting\<close>, broadcasts it, writes the termination command and, at
  the exit of the process, sets a timer of 2000 milliseconds; when the timer fires the
  same event is sent to the client, and the supervisor stays stopped with no process.
\<close>

theorem restart_emits_to_client:
  "on_restart 5 init = (init, [Emit (Socket 5) StartEvent])
   \<and> client_on 5 StartEvent = []
   \<and> serverStatus (fst (on_start 5 init)) = Starting
   \<and> minecraftProcess (fst (on_start 5 init)) = Some 0
   \<and> serverStatus (fst (on_restart 5 init)) = Stopped
   \<and> minecraftProcess (fst (on_restart 5 init)) = None
   \<and> run [Start 5, Restart 5, Close 0 (Some 0), Timeout 5] init =
       (\<lparr>minecraftProcess = None, serverStatus = Stopped, consoleHistory = [],
         heap = [spawn\<lparr>stdin := [''stop\<newline>''],
                       close_listeners := [CloseHandler, RestartClose 5]\<rparr>]\<rparr>,
        [Emit Io (Status Starting),
         Emit Io (Console ''[Manager] Starting Minecraft server...''),
         Emit Io (Status Restarting),
         Emit Io (Console ''[Manager] Restarting server...''),
         Emit Io (Console ''[Manager] Server stopped with code 0''),
         Emit Io (Status Stopped),
         SetTimeout 2000 5,
         Emit (Socket 5) StartEvent])"
  by (simp add: handler_defs init_def client_on_def run_def emit_close_def
      run_close_listener_def stdin_write_def add_close_listener_def spawn_def
      show_code_def show_int_def)

end
